theory Spec2Isabelle
  imports Complex_Main "HOL-Library.AList"
begin

section \<open>Values of the Python run time\<close>

text \<open>
  \<^verbatim>\<open>datetime\<close> and \<^verbatim>\<open>timedelta\<close> values are counted in microseconds, the resolution
  of both Python types. Python integers are unbounded.
\<close>

type_synonym datetime = int
type_synonym timedelta = int

definition UNIT_SECOND :: timedelta where
  "UNIT_SECOND = 1000000"

text \<open>A \<^verbatim>\<open>uuid.UUID\<close> is its 128-bit integer value.\<close>

datatype uuid = UUID nat

text \<open>
  The values that occur in token claims. A \<^verbatim>\<open>dict\<close> keeps its insertion order and has
  no duplicate keys: it is an association list, read with \<^const>\<open>map_of\<close> and written
  with \<^const>\<open>AList.update\<close>. Floating-point claim values are left out.
\<close>

datatype json =
    JNone
  | JBool bool
  | JInt int
  | JStr string
  | JDatetime datetime
  | JList "json list"
  | JDict "(string \<times> json) list"

type_synonym pydict = "(string \<times> json) list"

text \<open>
  Every exception the modelled functions can raise. \<open>HTTPException\<close> carries
  \<^verbatim>\<open>status_code\<close>, \<^verbatim>\<open>detail\<close> and \<^verbatim>\<open>headers\<close>; a result is \<open>error + 'a\<close> with
  \<open>Inl\<close> for a raised exception.
\<close>

datatype error =
    HTTPException nat string "(string \<times> string) list option"
  | ExpiredSignatureError
  | KeyError string
  | IndexError
  | ValueError
  | TypeError
  | AttributeError
  | ValidationError

section \<open>Requests, settings and the built-in principals\<close>

text \<open>
  The parts of a \<^verbatim>\<open>Request\<close> the module reads or writes: \<^verbatim>\<open>request.cookies\<close>,
  \<^verbatim>\<open>request.state.cookies_to_set\<close> (a list of \<^verbatim>\<open>{"key": k, "value": v}\<close>, kept as
  pairs) and \<^verbatim>\<open>request.state.endpoint\<close>.
\<close>

record request =
  cookies :: "(string \<times> string) list"
  cookies_to_set :: "(string \<times> string) list"
  endpoint :: "string option"

text \<open>The fields of \<^verbatim>\<open>settings\<close> that the module reads.\<close>

record settings =
  single_user_api_key :: string
  allow_anonymous_access :: bool
  secret_keys :: "string list"
  access_token_max_age :: timedelta
  refresh_token_max_age :: timedelta
  session_max_age :: timedelta

text \<open>
  Modelled from the spec: \<^verbatim>\<open>SpecialUsers\<close> (\<^verbatim>\<open>tiled.utils\<close> is not among the sources),
  the built-in Public and Admin principals. Each is a sentinel: neither is \<^verbatim>\<open>None\<close>
  and neither has the attributes of a Principal record.
\<close>

datatype SpecialUsers = public | admin

text \<open>
  Modelled from the spec: the response models \<^verbatim>\<open>Principal\<close> and \<^verbatim>\<open>Identity\<close> of
  \<^verbatim>\<open>tiled.server.models\<close>, with the fields the module passes to them.
\<close>

datatype principal_type = user | service

record Identity =
  m_id :: string
  m_provider :: string

record Principal =
  m_uuid :: uuid
  m_type :: principal_type
  m_identities :: "Identity list"

text \<open>What \<^verbatim>\<open>get_current_principal\<close> returns: a sentinel or a Principal model.\<close>

datatype current_principal =
    Special SpecialUsers
  | Authenticated Principal

section \<open>Libraries the module calls\<close>

text \<open>
  \<^verbatim>\<open>jose.jwt\<close>, \<^verbatim>\<open>uuid\<close> and \<^verbatim>\<open>tiled.server.utils.get_base_url\<close> are not part of the
  module. They are parameters of the model, so every theorem holds for any behaviour
  of them.

  \<^verbatim>\<open>jwt.decode(token, key, algorithms=[ALGORITHM])\<close> either returns the claims, or
  raises \<^verbatim>\<open>ExpiredSignatureError\<close> (the signature verifies under the key and the claims
  are past \<^verbatim>\<open>exp\<close>), or raises another \<^verbatim>\<open>JWTError\<close>. It reads the clock, so the
  parameter stands for the library at the time of the call.
\<close>

datatype jwt_outcome =
    Decoded pydict
  | RaisesExpiredSignatureError
  | RaisesJWTError

record libs =
  jwt_encode :: "pydict \<Rightarrow> string \<Rightarrow> string"
  jwt_decode :: "string \<Rightarrow> string \<Rightarrow> jwt_outcome"
  uuid_from_hex :: "string \<Rightarrow> uuid option"
  uuid_hex :: "uuid \<Rightarrow> string"
  get_base_url :: "request \<Rightarrow> string"

section \<open>Constants of the module\<close>

definition ACCESS_TOKEN_COOKIE_NAME :: string where
  "ACCESS_TOKEN_COOKIE_NAME = ''tiled_access_token''"

definition API_KEY_COOKIE_NAME :: string where
  "API_KEY_COOKIE_NAME = ''tiled_api_key''"

section \<open>Token codec\<close>

text \<open>
  \<^verbatim>\<open>create_access_token(data, secret_key, expires_delta)\<close>: a copy of \<^verbatim>\<open>data\<close> with
  \<^verbatim>\<open>exp\<close> and \<^verbatim>\<open>type\<close> set, signed. \<open>utcnow\<close> is the value of \<^verbatim>\<open>datetime.utcnow()\<close>.
\<close>

definition create_access_token ::
  "libs \<Rightarrow> datetime \<Rightarrow> pydict \<Rightarrow> string \<Rightarrow> timedelta \<Rightarrow> string" where
  "create_access_token L utcnow data secret_key expires_delta =
     (let expire = utcnow + expires_delta;
          to_encode = AList.update ''type'' (JStr ''access'')
                        (AList.update ''exp'' (JDatetime expire) data)
      in jwt_encode L to_encode secret_key)"

definition create_refresh_token ::
  "libs \<Rightarrow> datetime \<Rightarrow> json \<Rightarrow> string \<Rightarrow> timedelta \<Rightarrow> string" where
  "create_refresh_token L utcnow session_id secret_key expires_delta =
     (let expire = utcnow + expires_delta;
          to_encode = [(''type'', JStr ''refresh''),
                       (''sid'', session_id),
                       (''exp'', JDatetime expire)]
      in jwt_encode L to_encode secret_key)"

definition credentials_exception :: error where
  "credentials_exception =
     HTTPException 401 ''Could not validate credentials''
       (Some [(''WWW-Authenticate'', ''Bearer'')])"

text \<open>
  \<^verbatim>\<open>decode_token(token, secret_keys)\<close>: the \<^verbatim>\<open>for\<close> loop over the keys. \<^verbatim>\<open>break\<close> leaves
  with the payload, \<^verbatim>\<open>ExpiredSignatureError\<close> is re-raised, any other \<^verbatim>\<open>JWTError\<close>
  continues with the next key, and the loop's \<^verbatim>\<open>else\<close> raises
  \<^verbatim>\<open>credentials_exception\<close> when the keys are exhausted.
\<close>

fun decode_token :: "libs \<Rightarrow> string \<Rightarrow> string list \<Rightarrow> error + pydict" where
  "decode_token L token [] = Inl credentials_exception"
| "decode_token L token (secret_key # later_keys) =
     (case jwt_decode L token secret_key of
        Decoded payload \<Rightarrow> Inr payload
      | RaisesExpiredSignatureError \<Rightarrow> Inl ExpiredSignatureError
      | RaisesJWTError \<Rightarrow> decode_token L token later_keys)"

section \<open>Single-user API key\<close>

text \<open>
  \<^verbatim>\<open>secrets.compare_digest\<close> on two \<^verbatim>\<open>str\<close>: it accepts ASCII strings only and raises
  \<^verbatim>\<open>TypeError\<close> when either holds another character; on ASCII strings it is equality,
  in constant time. A string is the list of its bytes, so a character outside ASCII
  shows as a byte with the top bit set.
\<close>

definition is_ascii :: "string \<Rightarrow> bool" where
  "is_ascii s = list_all (\<lambda>c. \<not> digit7 c) s"

definition compare_digest :: "string \<Rightarrow> string \<Rightarrow> error + bool" where
  "compare_digest a b = (if is_ascii a \<and> is_ascii b then Inr (a = b) else Inl TypeError)"

definition invalid_api_key :: error where
  "invalid_api_key = HTTPException 401 ''Invalid API key'' None"

text \<open>
  The loop of \<^verbatim>\<open>check_single_user_api_key\<close> over its carriers; \<open>None\<close> is a carrier
  that the request does not have.
\<close>

fun check_api_keys :: "string option list \<Rightarrow> settings \<Rightarrow> error + bool" where
  "check_api_keys [] settings = Inr False"
| "check_api_keys (None # api_keys) settings = check_api_keys api_keys settings"
| "check_api_keys (Some api_key # api_keys) settings =
     (case compare_digest api_key (single_user_api_key settings) of
        Inl e \<Rightarrow> Inl e
      | Inr matches \<Rightarrow> (if matches then Inr True else Inl invalid_api_key))"

definition check_single_user_api_key ::
  "string option \<Rightarrow> string option \<Rightarrow> string option \<Rightarrow> settings \<Rightarrow> error + bool" where
  "check_single_user_api_key api_key_query api_key_header api_key_cookie settings =
     check_api_keys [api_key_query, api_key_header, api_key_cookie] settings"

section \<open>Resolving the principal of a request\<close>

text \<open>\<^verbatim>\<open>uuid.UUID(hex=v)\<close> on a claim value: a value that is not a string has no \<^verbatim>\<open>replace\<close>.\<close>

fun UUID_of_hex :: "libs \<Rightarrow> json \<Rightarrow> error + uuid" where
  "UUID_of_hex L (JStr h) =
     (case uuid_from_hex L h of None \<Rightarrow> Inl ValueError | Some u \<Rightarrow> Inr u)"
| "UUID_of_hex L JNone = Inl TypeError"
| "UUID_of_hex L v = Inl AttributeError"

text \<open>\<^verbatim>\<open>Identity(id=identity["id"], provider=identity["idp"])\<close> for one element of the claim.\<close>

fun Identity_of_claim :: "json \<Rightarrow> error + Identity" where
  "Identity_of_claim (JDict identity) =
     (case map_of identity ''id'' of
        None \<Rightarrow> Inl (KeyError ''id'')
      | Some i \<Rightarrow>
          (case map_of identity ''idp'' of
             None \<Rightarrow> Inl (KeyError ''idp'')
           | Some p \<Rightarrow>
               (case (i, p) of
                  (JStr i', JStr p') \<Rightarrow> Inr \<lparr>m_id = i', m_provider = p'\<rparr>
                | _ \<Rightarrow> Inl ValidationError)))"
| "Identity_of_claim v = Inl TypeError"

text \<open>The list comprehension: the first element that raises ends it.\<close>

fun Identities_of_claims :: "json list \<Rightarrow> error + Identity list" where
  "Identities_of_claims [] = Inr []"
| "Identities_of_claims (identity # ids) =
     (case Identity_of_claim identity of
        Inl e \<Rightarrow> Inl e
      | Inr i \<Rightarrow>
          (case Identities_of_claims ids of
             Inl e \<Rightarrow> Inl e
           | Inr is \<Rightarrow> Inr (i # is)))"

text \<open>
  Iterating \<^verbatim>\<open>payload["ids"]\<close>: a list gives its elements, a string its characters, a
  dict its keys (strings again); anything else is not iterable.
\<close>

fun iterate :: "json \<Rightarrow> error + json list" where
  "iterate (JList xs) = Inr xs"
| "iterate (JStr s) = Inr (map (\<lambda>c. JStr [c]) s)"
| "iterate (JDict d) = Inr (map (\<lambda>(k, v). JStr k) d)"
| "iterate v = Inl TypeError"

fun principal_type_of_claim :: "json \<Rightarrow> principal_type option" where
  "principal_type_of_claim (JStr t) =
     (if t = ''user'' then Some user else if t = ''service'' then Some service else None)"
| "principal_type_of_claim v = None"

text \<open>
  The closing expression of \<^verbatim>\<open>get_current_principal\<close>: the keyword arguments are
  evaluated in the order written, then the model validates them.
\<close>

definition Principal_of_payload :: "libs \<Rightarrow> pydict \<Rightarrow> error + Principal" where
  "Principal_of_payload L payload =
     (case map_of payload ''sub'' of
        None \<Rightarrow> Inl (KeyError ''sub'')
      | Some sub \<Rightarrow>
     (case UUID_of_hex L sub of
        Inl e \<Rightarrow> Inl e
      | Inr u \<Rightarrow>
     (case map_of payload ''sub_typ'' of
        None \<Rightarrow> Inl (KeyError ''sub_typ'')
      | Some t \<Rightarrow>
     (case map_of payload ''ids'' of
        None \<Rightarrow> Inl (KeyError ''ids'')
      | Some ids \<Rightarrow>
     (case iterate ids of
        Inl e \<Rightarrow> Inl e
      | Inr xs \<Rightarrow>
     (case Identities_of_claims xs of
        Inl e \<Rightarrow> Inl e
      | Inr is \<Rightarrow>
     (case principal_type_of_claim t of
        None \<Rightarrow> Inl ValidationError
      | Some ty \<Rightarrow> Inr \<lparr>m_uuid = u, m_type = ty, m_identities = is\<rparr>)))))))"

definition not_authenticated :: "libs \<Rightarrow> request \<Rightarrow> error" where
  "not_authenticated L request =
     HTTPException 401 ''Not authenticated'' (Some [(''X-Tiled-Root'', get_base_url L request)])"

definition access_token_expired :: error where
  "access_token_expired = HTTPException 401 ''Access token has expired. Refresh token.'' None"

text \<open>
  The body of \<^verbatim>\<open>get_current_principal\<close>. \<open>access_token\<close> is what \<^verbatim>\<open>oauth2_scheme\<close>
  took from the Authorization header, \<open>authenticators\<close> the configured providers. The
  result is the request, with the cookie the function may have scheduled, and the
  value returned or the exception raised.
\<close>

definition get_current_principal ::
  "libs \<Rightarrow> request \<Rightarrow> string option \<Rightarrow> bool \<Rightarrow> settings \<Rightarrow> string list
     \<Rightarrow> request \<times> (error + current_principal)" where
  "get_current_principal L request access_token has_single_user_api_key settings authenticators =
     (if authenticators = [] \<and> has_single_user_api_key then
        ((if map_of (cookies request) API_KEY_COOKIE_NAME \<noteq> Some (single_user_api_key settings)
          then request\<lparr>cookies_to_set :=
                 cookies_to_set request @ [(API_KEY_COOKIE_NAME, single_user_api_key settings)]\<rparr>
          else request),
         Inr (Special admin))
      else
        (let access_token_from_either_location =
               (case map_of (cookies request) ACCESS_TOKEN_COOKIE_NAME of
                  Some c \<Rightarrow> Some c
                | None \<Rightarrow> access_token)
         in case access_token_from_either_location of
              None \<Rightarrow>
                (if allow_anonymous_access settings then (request, Inr (Special public))
                 else (request, Inl (not_authenticated L request)))
            | Some tok \<Rightarrow>
                (case decode_token L tok (secret_keys settings) of
                   Inl e \<Rightarrow>
                     (if e = ExpiredSignatureError then (request, Inl access_token_expired)
                      else (request, Inl e))
                 | Inr payload \<Rightarrow>
                     (case Principal_of_payload L payload of
                        Inl e \<Rightarrow> (request, Inl e)
                      | Inr p \<Rightarrow> (request, Inr (Authenticated p))))))"

text \<open>
  \<^verbatim>\<open>get_current_principal\<close> as a dependency: the framework first resolves
  \<^verbatim>\<open>Depends(check_single_user_api_key)\<close> from the three carriers, and an exception
  raised there ends the request before the body runs.
\<close>

definition depends_get_current_principal ::
  "libs \<Rightarrow> request \<Rightarrow> string option \<Rightarrow> string option \<Rightarrow> string option \<Rightarrow> string option
     \<Rightarrow> settings \<Rightarrow> string list \<Rightarrow> request \<times> (error + current_principal)" where
  "depends_get_current_principal L request access_token
       api_key_query api_key_header api_key_cookie settings authenticators =
     (case check_single_user_api_key api_key_query api_key_header api_key_cookie settings of
        Inl e \<Rightarrow> (request, Inl e)
      | Inr has_single_user_api_key \<Rightarrow>
          get_current_principal L request access_token has_single_user_api_key
            settings authenticators)"

section \<open>The store\<close>

text \<open>
  Modelled from the spec: the tables of \<^verbatim>\<open>tiled.database.orm\<close>, which is not among the
  sources. A row of \<^verbatim>\<open>orm.Principal\<close> has \<^verbatim>\<open>id\<close>, \<^verbatim>\<open>uuid\<close> and \<^verbatim>\<open>type\<close>; a row of
  \<^verbatim>\<open>orm.Identity\<close> has \<^verbatim>\<open>id\<close>, \<^verbatim>\<open>provider\<close> and \<^verbatim>\<open>principal_id\<close>; a row of
  \<^verbatim>\<open>orm.Session\<close> has \<^verbatim>\<open>id\<close>, \<^verbatim>\<open>uuid\<close>, \<^verbatim>\<open>principal_id\<close>, \<^verbatim>\<open>expiration_time\<close>,
  \<^verbatim>\<open>revoked\<close>, \<^verbatim>\<open>refresh_count\<close> and \<^verbatim>\<open>time_last_refreshed\<close>. The fields are prefixed
  with the table's initial. A new Session has \<^verbatim>\<open>revoked=false\<close> and
  \<^verbatim>\<open>refresh_count=0\<close>, and has not been refreshed.
\<close>

record orm_Principal =
  p_id :: nat
  p_uuid :: uuid
  p_type :: principal_type

record orm_Identity =
  i_id :: string
  i_provider :: string
  i_principal_id :: nat

record orm_Session =
  s_id :: nat
  s_uuid :: uuid
  s_principal_id :: nat
  s_expiration_time :: datetime
  s_revoked :: bool
  s_refresh_count :: int
  s_time_last_refreshed :: "datetime option"

record store =
  principals :: "orm_Principal list"
  identities :: "orm_Identity list"
  sessions :: "orm_Session list"

text \<open>
  The \<^verbatim>\<open>db\<close> handle is a unit of work: \<open>rows\<close> is what its queries see, pending
  writes included, and \<open>committed\<close> lists, oldest first, every state of the store that
  a \<^verbatim>\<open>db.commit()\<close> has made durable.
\<close>

record db =
  rows :: store
  committed :: "store list"

definition commit :: "db \<Rightarrow> db" where
  "commit d = d\<lparr>committed := committed d @ [rows d]\<rparr>"

text \<open>The key the store generates for a new row: above every key of the table.\<close>

definition next_id :: "nat list \<Rightarrow> nat" where
  "next_id ids = Suc (fold max ids 0)"

text \<open>\<^verbatim>\<open>query(...).filter(...).first()\<close> as the position of the row found.\<close>

fun first_index :: "('a \<Rightarrow> bool) \<Rightarrow> 'a list \<Rightarrow> nat option" where
  "first_index P [] = None"
| "first_index P (x # xs) = (if P x then Some 0 else map_option Suc (first_index P xs))"

text \<open>The relationships \<^verbatim>\<open>identity.principal\<close>, \<^verbatim>\<open>session.principal\<close> and \<^verbatim>\<open>principal.identities\<close>.\<close>

definition principal_with_id :: "store \<Rightarrow> nat \<Rightarrow> orm_Principal option" where
  "principal_with_id st k = find (\<lambda>p. p_id p = k) (principals st)"

definition identities_of :: "store \<Rightarrow> orm_Principal \<Rightarrow> orm_Identity list" where
  "identities_of st principal_orm =
     filter (\<lambda>i. i_principal_id i = p_id principal_orm) (identities st)"

text \<open>
  Modelled from the spec: the foreign key of \<^verbatim>\<open>orm.Identity\<close>, "an Identity belongs to
  exactly one Principal for its lifetime": the Principal of every Identity is in the
  store.
\<close>

definition referential_integrity :: "store \<Rightarrow> bool" where
  "referential_integrity st =
     list_all (\<lambda>i. principal_with_id st (i_principal_id i) \<noteq> None) (identities st)"

text \<open>\<^verbatim>\<open>Principal.from_orm(principal)\<close>.\<close>

definition Principal_from_orm :: "store \<Rightarrow> orm_Principal \<Rightarrow> Principal" where
  "Principal_from_orm st principal_orm =
     \<lparr>m_uuid = p_uuid principal_orm,
      m_type = p_type principal_orm,
      m_identities =
        map (\<lambda>i. \<lparr>m_id = i_id i, m_provider = i_provider i\<rparr>)
          (identities_of st principal_orm)\<rparr>"

section \<open>Sessions\<close>

text \<open>\<^verbatim>\<open>principal.type.value\<close>.\<close>

fun type_value :: "principal_type \<Rightarrow> string" where
  "type_value user = ''user''"
| "type_value service = ''service''"

text \<open>The claims of an access token, as \<^verbatim>\<open>create_session\<close> and \<^verbatim>\<open>slide_session\<close> build them.\<close>

definition access_token_data :: "libs \<Rightarrow> Principal \<Rightarrow> pydict" where
  "access_token_data L principal_model =
     [(''sub'', JStr (uuid_hex L (m_uuid principal_model))),
      (''sub_typ'', JStr (type_value (m_type principal_model))),
      (''ids'', JList (map (\<lambda>identity. JDict [(''id'', JStr (m_id identity)),
                                               (''idp'', JStr (m_provider identity))])
                        (m_identities principal_model)))]"

text \<open>
  The token bundle both functions return. \<^verbatim>\<open>max_age / UNIT_SECOND\<close> is a quotient of
  two \<^verbatim>\<open>timedelta\<close>s; the rational is kept, Python rounds it to a float.
\<close>

record token_bundle =
  b_access_token :: string
  b_expires_in :: rat
  b_refresh_token :: string
  b_refresh_token_expires_in :: rat
  b_token_type :: string

text \<open>
  The tail shared by both functions, from \<^verbatim>\<open>data = {...}\<close> to \<^verbatim>\<open>return\<close>.
  \<^verbatim>\<open>settings.secret_keys[0]\<close> raises on an empty key list.
\<close>

definition issue_tokens ::
  "libs \<Rightarrow> datetime \<Rightarrow> settings \<Rightarrow> Principal \<Rightarrow> json \<Rightarrow> error + token_bundle" where
  "issue_tokens L utcnow settings principal_model session_id =
     (case secret_keys settings of
        [] \<Rightarrow> Inl IndexError
      | secret_key # _ \<Rightarrow>
          Inr \<lparr>b_access_token =
                 create_access_token L utcnow (access_token_data L principal_model) secret_key
                   (access_token_max_age settings),
               b_expires_in = of_int (access_token_max_age settings) / of_int UNIT_SECOND,
               b_refresh_token =
                 create_refresh_token L utcnow session_id secret_key
                   (refresh_token_max_age settings),
               b_refresh_token_expires_in =
                 of_int (refresh_token_max_age settings) / of_int UNIT_SECOND,
               b_token_type = ''bearer''\<rparr>)"

text \<open>
  \<^verbatim>\<open>create_session(db, settings, identity_provider, id)\<close>. \<open>now\<close> and \<open>utcnow\<close> are the
  clock readings, \<open>principal_uuid\<close> and \<open>session_uuid\<close> the uuids the store generates
  for a new Principal and for the new Session. \<^verbatim>\<open>identity.principal\<close> of an Identity
  whose Principal is not in the store is \<^verbatim>\<open>None\<close>, and reading its \<^verbatim>\<open>id\<close> raises.
\<close>

definition create_session ::
  "libs \<Rightarrow> datetime \<Rightarrow> datetime \<Rightarrow> uuid \<Rightarrow> uuid \<Rightarrow> db \<Rightarrow> settings \<Rightarrow> string \<Rightarrow> string
     \<Rightarrow> db \<times> (error + token_bundle)" where
  "create_session L now utcnow principal_uuid session_uuid d settings identity_provider ident =
     (let (d2, found) =
            (case find (\<lambda>i. i_id i = ident \<and> i_provider i = identity_provider)
                    (identities (rows d)) of
               None \<Rightarrow>
                 (let principal_orm =
                        \<lparr>p_id = next_id (map p_id (principals (rows d))),
                         p_uuid = principal_uuid, p_type = user\<rparr>;
                      d1 = commit (d\<lparr>rows := (rows d)\<lparr>principals :=
                                     principals (rows d) @ [principal_orm]\<rparr>\<rparr>);
                      identity = \<lparr>i_id = ident, i_provider = identity_provider,
                                  i_principal_id = p_id principal_orm\<rparr>
                  in (commit (d1\<lparr>rows := (rows d1)\<lparr>identities :=
                                   identities (rows d1) @ [identity]\<rparr>\<rparr>),
                      Some principal_orm))
             | Some identity \<Rightarrow> (d, principal_with_id (rows d) (i_principal_id identity)))
      in case found of
           None \<Rightarrow> (d2, Inl AttributeError)
         | Some principal_orm \<Rightarrow>
             (let session = \<lparr>s_id = next_id (map s_id (sessions (rows d2))),
                             s_uuid = session_uuid,
                             s_principal_id = p_id principal_orm,
                             s_expiration_time = now + session_max_age settings,
                             s_revoked = False,
                             s_refresh_count = 0,
                             s_time_last_refreshed = None\<rparr>;
                  d3 = commit (d2\<lparr>rows := (rows d2)\<lparr>sessions :=
                                 sessions (rows d2) @ [session]\<rparr>\<rparr>);
                  principal_model = Principal_from_orm (rows d3) principal_orm
              in (d3, issue_tokens L utcnow settings principal_model
                        (JStr (uuid_hex L (s_uuid session))))))"

definition session_expired :: error where
  "session_expired = HTTPException 401 ''Session has expired. Please re-authenticate.'' None"

text \<open>\<^verbatim>\<open>Response(status_code=...)\<close>, a response without a body.\<close>

datatype response = Response nat

text \<open>
  \<^verbatim>\<open>revoke_session(session_id, request, db)\<close>. Assigning to an attribute of the \<^verbatim>\<open>None\<close>
  that \<^verbatim>\<open>first()\<close> returns for no row raises \<^verbatim>\<open>AttributeError\<close>.
\<close>

definition revoke_session ::
  "libs \<Rightarrow> string \<Rightarrow> request \<Rightarrow> db \<Rightarrow> request \<times> db \<times> (error + response)" where
  "revoke_session L session_id request d =
     (let request1 = request\<lparr>endpoint := Some ''auth''\<rparr>
      in case uuid_from_hex L session_id of
           None \<Rightarrow> (request1, d, Inl ValueError)
         | Some u \<Rightarrow>
             (case first_index (\<lambda>s. s_uuid s = u) (sessions (rows d)) of
                None \<Rightarrow> (request1, d, Inl AttributeError)
              | Some i \<Rightarrow>
                  (let session = sessions (rows d) ! i;
                       d1 = d\<lparr>rows := (rows d)\<lparr>sessions :=
                              (sessions (rows d))[i := session\<lparr>s_revoked := True\<rparr>]\<rparr>\<rparr>
                   in (request1, commit d1, Inr (Response 204)))))"

text \<open>
  What \<^verbatim>\<open>slide_session\<close> assigns to the attributes of the Session.
  \<^verbatim>\<open>session.time_last_refreshed = now\<close> assigns a value;
  \<^verbatim>\<open>session.refresh_count = orm.Session.refresh_count + 1\<close> assigns a column
  expression, which the store evaluates on the row it holds.
\<close>

datatype assignment =
    Set_time_last_refreshed datetime
  | Add_to_refresh_count int

fun assign :: "assignment \<Rightarrow> orm_Session \<Rightarrow> orm_Session" where
  "assign (Set_time_last_refreshed t) stored = stored\<lparr>s_time_last_refreshed := Some t\<rparr>"
| "assign (Add_to_refresh_count k) stored =
     stored\<lparr>s_refresh_count := s_refresh_count stored + k\<rparr>"

text \<open>
  The \<^verbatim>\<open>UPDATE\<close> that carries the assignments to the Session at position \<open>i\<close> of the
  table: a store without that row is left as it is.
\<close>

definition update_session :: "nat \<Rightarrow> assignment list \<Rightarrow> store \<Rightarrow> store" where
  "update_session i assignments st =
     (if i < length (sessions st)
      then st\<lparr>sessions := (sessions st)[i := fold assign assignments (sessions st ! i)]\<rparr>
      else st)"

text \<open>
  \<^verbatim>\<open>slide_session(refresh_token, settings, db)\<close>. The test of the Session is evaluated
  left to right, so a missing Session raises before its fields are read. The two
  assignments to the Session are pending writes of the handle: the function does not
  call \<^verbatim>\<open>db.commit()\<close>.
\<close>

definition slide_session ::
  "libs \<Rightarrow> datetime \<Rightarrow> datetime \<Rightarrow> string \<Rightarrow> settings \<Rightarrow> db \<Rightarrow> db \<times> (error + token_bundle)" where
  "slide_session L now utcnow refresh_token settings d =
     (case decode_token L refresh_token (secret_keys settings) of
        Inl e \<Rightarrow> (if e = ExpiredSignatureError then (d, Inl session_expired) else (d, Inl e))
      | Inr payload \<Rightarrow>
     (case map_of payload ''sid'' of
        None \<Rightarrow> (d, Inl (KeyError ''sid''))
      | Some sid \<Rightarrow>
     (case UUID_of_hex L sid of
        Inl e \<Rightarrow> (d, Inl e)
      | Inr u \<Rightarrow>
     (case first_index (\<lambda>s. s_uuid s = u) (sessions (rows d)) of
        None \<Rightarrow> (d, Inl session_expired)
      | Some i \<Rightarrow>
     (let session = sessions (rows d) ! i
      in if s_revoked session \<or> s_expiration_time session < now
         then (d, Inl session_expired)
         else
           (let d1 = d\<lparr>rows := update_session i
                                   [Set_time_last_refreshed now, Add_to_refresh_count 1]
                                   (rows d)\<rparr>
            in case principal_with_id (rows d1) (s_principal_id session) of
                 None \<Rightarrow> (d1, Inl ValidationError)
               | Some principal_orm \<Rightarrow>
                   (d1, issue_tokens L utcnow settings
                          (Principal_from_orm (rows d1) principal_orm) sid)))))))"

text \<open>\<^verbatim>\<open>refresh_session(request, refresh_token, settings, db)\<close>.\<close>

definition refresh_session ::
  "libs \<Rightarrow> datetime \<Rightarrow> datetime \<Rightarrow> request \<Rightarrow> string \<Rightarrow> settings \<Rightarrow> db
     \<Rightarrow> request \<times> db \<times> (error + token_bundle)" where
  "refresh_session L now utcnow request refresh_token settings d =
     (let request1 = request\<lparr>endpoint := Some ''auth''\<rparr>;
          (d1, new_tokens) = slide_session L now utcnow refresh_token settings d
      in (request1, d1, new_tokens))"

text \<open>
  \<^verbatim>\<open>whoami(request, principal, db)\<close>. \<open>principal'\<close> is an optional value because the
  function tests it against \<^verbatim>\<open>None\<close>; a sentinel has no \<^verbatim>\<open>uuid\<close> attribute, and
  \<^verbatim>\<open>Principal.from_orm\<close> rejects the \<^verbatim>\<open>None\<close> of an empty query.
\<close>

definition whoami ::
  "request \<Rightarrow> current_principal option \<Rightarrow> db \<Rightarrow> request \<times> (error + Principal option)" where
  "whoami request principal' d =
     (let request1 = request\<lparr>endpoint := Some ''auth''\<rparr>
      in case principal' of
           None \<Rightarrow> (request1, Inr None)
         | Some (Special sentinel) \<Rightarrow> (request1, Inl AttributeError)
         | Some (Authenticated p) \<Rightarrow>
             (case find (\<lambda>r. p_uuid r = m_uuid p) (principals (rows d)) of
                None \<Rightarrow> (request1, Inl ValidationError)
              | Some principal_orm \<Rightarrow>
                  (request1, Inr (Some (Principal_from_orm (rows d) principal_orm)))))"

section \<open>A concrete deployment\<close>

text \<open>
  An instance of the libraries, used to run the functions: the token signed under key
  \<open>k\<close> is the string \<open>k.token\<close>; decoding it under \<open>k\<close> gives the refresh claims of
  session \<open>07\<close>, or \<^verbatim>\<open>ExpiredSignatureError\<close> once \<open>expired\<close> holds, and under any
  other key the signature does not verify.
\<close>

definition example_libs :: "bool \<Rightarrow> libs" where
  "example_libs expired =
     \<lparr>jwt_encode = (\<lambda>payload key. key @ ''.token''),
      jwt_decode = (\<lambda>token key.
         if token = key @ ''.token'' then
           (if expired then RaisesExpiredSignatureError
            else Decoded [(''type'', JStr ''refresh''), (''sid'', JStr ''07''),
                          (''exp'', JInt 100)])
         else RaisesJWTError),
      uuid_from_hex = (\<lambda>h. if h = ''07'' then Some (UUID 7)
                            else if h = ''08'' then Some (UUID 8) else None),
      uuid_hex = (\<lambda>u. if u = UUID 7 then ''07'' else ''08''),
      get_base_url = (\<lambda>r. ''https://example.com/'')\<rparr>"

definition example_settings :: settings where
  "example_settings =
     \<lparr>single_user_api_key = ''secret'',
      allow_anonymous_access = True,
      secret_keys = [''K1'', ''K2''],
      access_token_max_age = 900000000,
      refresh_token_max_age = 7000000000,
      session_max_age = 9000000000\<rparr>"

definition example_request :: request where
  "example_request = \<lparr>cookies = [], cookies_to_set = [], endpoint = None\<rparr>"

definition empty_db :: db where
  "empty_db = \<lparr>rows = \<lparr>principals = [], identities = [], sessions = []\<rparr>, committed = []\<rparr>"

text \<open>A store with one Principal, its Identity and the Session \<open>07\<close>, given by its flags.\<close>

definition example_db :: "bool \<Rightarrow> datetime \<Rightarrow> db" where
  "example_db revoked expiration_time =
     \<lparr>rows = \<lparr>principals = [\<lparr>p_id = 1, p_uuid = UUID 8, p_type = user\<rparr>],
              identities = [\<lparr>i_id = ''alice'', i_provider = ''orcid'', i_principal_id = 1\<rparr>],
              sessions = [\<lparr>s_id = 1, s_uuid = UUID 7, s_principal_id = 1,
                          s_expiration_time = expiration_time, s_revoked = revoked,
                          s_refresh_count = 0, s_time_last_refreshed = None\<rparr>]\<rparr>,
      committed = []\<rparr>"

section \<open>Key rotation in decode_token\<close>

lemma decode_token_skips_failing_keys:
  "\<forall>k \<in> set pre. jwt_decode L token k = RaisesJWTError \<Longrightarrow>
   decode_token L token (pre @ rest) = decode_token L token rest"
  by (induction pre) simp_all

lemma decode_token_invalid_iff:
  "decode_token L token keys = Inl credentials_exception \<longleftrightarrow>
   (\<forall>k \<in> set keys. jwt_decode L token k = RaisesJWTError)"
  by (induction keys) (auto simp: credentials_exception_def split: jwt_outcome.splits)

text \<open>
  Claim C2. The keys are tried in the order of the list. When every key before \<open>k\<close>
  fails to verify the token, the outcome is decided at \<open>k\<close>, whatever keys follow it:
  if \<open>k\<close> verifies the token, its claims are returned; if \<open>k\<close> verifies the signature
  but the claims are past \<^verbatim>\<open>exp\<close>, \<^verbatim>\<open>ExpiredSignatureError\<close> is raised and no later key
  is tried. The 401 "Could not validate credentials" is raised exactly when every key
  of the list fails for a reason other than expiry.
\<close>

theorem decode_token_key_order:
  "((\<forall>k' \<in> set pre. jwt_decode L token k' = RaisesJWTError) \<longrightarrow>
      (jwt_decode L token k = Decoded payload \<longrightarrow>
         decode_token L token (pre @ k # rest) = Inr payload) \<and>
      (jwt_decode L token k = RaisesExpiredSignatureError \<longrightarrow>
         decode_token L token (pre @ k # rest) = Inl ExpiredSignatureError)) \<and>
   (decode_token L token keys =
        Inl (HTTPException 401 ''Could not validate credentials''
               (Some [(''WWW-Authenticate'', ''Bearer'')])) \<longleftrightarrow>
      (\<forall>k' \<in> set keys. jwt_decode L token k' = RaisesJWTError))"
proof (intro impI conjI)
  assume pre: "\<forall>k' \<in> set pre. jwt_decode L token k' = RaisesJWTError"
  show "decode_token L token (pre @ k # rest) = Inr payload"
    if "jwt_decode L token k = Decoded payload"
    using that by (simp add: decode_token_skips_failing_keys [OF pre])
  show "decode_token L token (pre @ k # rest) = Inl ExpiredSignatureError"
    if "jwt_decode L token k = RaisesExpiredSignatureError"
    using that by (simp add: decode_token_skips_failing_keys [OF pre])
next
  show "decode_token L token keys =
          Inl (HTTPException 401 ''Could not validate credentials''
                 (Some [(''WWW-Authenticate'', ''Bearer'')])) \<longleftrightarrow>
        (\<forall>k' \<in> set keys. jwt_decode L token k' = RaisesJWTError)"
    using decode_token_invalid_iff [of L token keys]
    by (simp add: credentials_exception_def)
qed

text \<open>
  The token signed under \<open>K2\<close> decodes with the keys \<open>K1, K2\<close>; once expired it raises
  \<^verbatim>\<open>ExpiredSignatureError\<close> although \<open>K3\<close> follows; with \<open>K1\<close> alone it is rejected.
\<close>

theorem decode_token_key_order_witness:
  "decode_token (example_libs False) ''K2.token'' [''K1'', ''K2''] =
     Inr [(''type'', JStr ''refresh''), (''sid'', JStr ''07''), (''exp'', JInt 100)] \<and>
   decode_token (example_libs True) ''K2.token'' [''K1'', ''K2'', ''K3''] =
     Inl ExpiredSignatureError \<and>
   decode_token (example_libs False) ''K2.token'' [''K1''] =
     Inl (HTTPException 401 ''Could not validate credentials''
            (Some [(''WWW-Authenticate'', ''Bearer'')]))"
  using decode_token_key_order [of "[''K1'']" "example_libs False" "''K2.token''" "''K2''"
          "[(''type'', JStr ''refresh''), (''sid'', JStr ''07''), (''exp'', JInt 100)]" "[]"
          "[''K1'']"]
        decode_token_key_order [of "[''K1'']" "example_libs True" "''K2.token''" "''K2''"
          "[]" "[''K3'']" "[]"]
  by (simp add: example_libs_def)

section \<open>The single-user API key\<close>

text \<open>Only the first carrier that is present is compared, whatever the later ones hold.\<close>

lemma check_api_keys_first_present:
  "check_api_keys (replicate n None @ Some api_key # rest) settings =
     (if is_ascii api_key \<and> is_ascii (single_user_api_key settings)
      then (if api_key = single_user_api_key settings then Inr True else Inl invalid_api_key)
      else Inl TypeError)"
  by (induction n) (simp_all add: compare_digest_def)

text \<open>
  For ASCII keys the first present carrier decides: the check succeeds if it equals
  the configured key, and otherwise raises the 401 "Invalid API key", so that
  resolving the principal fails with this error whatever access token the request
  carries and whatever authenticators are configured.
\<close>

lemma ascii_api_key_rejected_first:
  assumes first_present:
    "[api_key_query, api_key_header, api_key_cookie] = replicate n None @ Some api_key # rest"
    and ascii: "is_ascii api_key" "is_ascii (single_user_api_key settings)"
  shows "check_single_user_api_key api_key_query api_key_header api_key_cookie settings =
           (if api_key = single_user_api_key settings then Inr True
            else Inl (HTTPException 401 ''Invalid API key'' None))
       \<and> (api_key \<noteq> single_user_api_key settings \<longrightarrow>
            depends_get_current_principal L request access_token
                api_key_query api_key_header api_key_cookie settings authenticators =
              (request, Inl (HTTPException 401 ''Invalid API key'' None)))"
  using check_api_keys_first_present [of n api_key rest settings] ascii
  by (simp add: check_single_user_api_key_def depends_get_current_principal_def
        first_present invalid_api_key_def)

text \<open>
  A first present carrier that differs from the configured key always ends the
  request with an exception, before any access token is looked at.
\<close>

lemma differing_api_key_never_reaches_token:
  assumes first_present:
    "[api_key_query, api_key_header, api_key_cookie] = replicate n None @ Some api_key # rest"
    and differs: "api_key \<noteq> single_user_api_key settings"
  shows "\<exists>e. depends_get_current_principal L request access_token
                api_key_query api_key_header api_key_cookie settings authenticators =
              (request, Inl e)"
  using check_api_keys_first_present [of n api_key rest settings] differs
  by (simp add: check_single_user_api_key_def depends_get_current_principal_def first_present)

text \<open>
  Claim C10 fails on the code for a key with a character outside ASCII: presented in
  the query parameter, the two bytes of a Latin small e with acute differ from the
  configured key, and \<^verbatim>\<open>compare_digest\<close> raises \<^verbatim>\<open>TypeError\<close> where the claim has
  the request fail with the 401 "Invalid API key".
\<close>

theorem non_ascii_api_key_raises_TypeError:
  "[CHR 0xC3, CHR 0xA9] \<noteq> single_user_api_key example_settings \<and>
   check_single_user_api_key (Some [CHR 0xC3, CHR 0xA9]) None None example_settings =
     Inl TypeError \<and>
   depends_get_current_principal (example_libs False) example_request None
       (Some [CHR 0xC3, CHR 0xA9]) None None example_settings [] =
     (example_request, Inl TypeError)"
  by (simp add: check_single_user_api_key_def depends_get_current_principal_def
        compare_digest_def is_ascii_def example_settings_def)

section \<open>Requests without credentials, and expired access tokens\<close>

text \<open>
  Claim C7. A request with no access token (no access-token cookie, no bearer token)
  and no API key in any carrier resolves to the Public sentinel when anonymous access
  is enabled, and otherwise fails with the 401 "Not authenticated" whose
  \<^verbatim>\<open>X-Tiled-Root\<close> header is the base URL of the service. The function takes no store
  handle, and the request is returned as it came.
\<close>

theorem get_current_principal_without_credentials:
  assumes no_cookie: "map_of (cookies request) ACCESS_TOKEN_COOKIE_NAME = None"
  shows "depends_get_current_principal L request None None None None settings authenticators =
           (request,
            if allow_anonymous_access settings then Inr (Special public)
            else Inl (HTTPException 401 ''Not authenticated''
                        (Some [(''X-Tiled-Root'', get_base_url L request)])))"
  using no_cookie
  by (simp add: depends_get_current_principal_def check_single_user_api_key_def
        get_current_principal_def not_authenticated_def)

theorem get_current_principal_without_credentials_witness:
  "depends_get_current_principal (example_libs False) example_request None None None None
       example_settings [''orcid''] =
     (example_request, Inr (Special public)) \<and>
   depends_get_current_principal (example_libs False) example_request None None None None
       (example_settings\<lparr>allow_anonymous_access := False\<rparr>) [''orcid''] =
     (example_request,
      Inl (HTTPException 401 ''Not authenticated''
             (Some [(''X-Tiled-Root'', ''https://example.com/'')])))"
proof -
  have no_cookie: "map_of (cookies example_request) ACCESS_TOKEN_COOKIE_NAME = None"
    by (simp add: example_request_def)
  show ?thesis
    using get_current_principal_without_credentials [OF no_cookie, of "example_libs False"
            example_settings "[''orcid'']"]
          get_current_principal_without_credentials [OF no_cookie, of "example_libs False"
            "example_settings\<lparr>allow_anonymous_access := False\<rparr>" "[''orcid'']"]
    by (simp add: example_settings_def example_libs_def)
qed

text \<open>
  Claim C8. Take a request that is not answered by the single-user API key and that
  presents the access token \<open>tok\<close>, in the cookie or else as bearer token. If some
  configured key verifies the signature of \<open>tok\<close> but its \<^verbatim>\<open>exp\<close> has passed, every key
  before it failing, the request fails with the 401 "Access token has expired. Refresh
  token."; if no configured key verifies the signature, it fails with the 401 "Could
  not validate credentials"; and the two errors differ.
\<close>

theorem expired_access_token_is_distinct:
  assumes not_admin: "\<not> (authenticators = [] \<and> has_single_user_api_key)"
    and presented: "(case map_of (cookies request) ACCESS_TOKEN_COOKIE_NAME of
                       Some c \<Rightarrow> Some c
                     | None \<Rightarrow> access_token) = Some tok"
  shows "((\<exists>pre k rest. secret_keys settings = pre @ k # rest
              \<and> (\<forall>k' \<in> set pre. jwt_decode L tok k' = RaisesJWTError)
              \<and> jwt_decode L tok k = RaisesExpiredSignatureError) \<longrightarrow>
          get_current_principal L request access_token has_single_user_api_key
              settings authenticators =
            (request, Inl (HTTPException 401 ''Access token has expired. Refresh token.'' None)))
       \<and> ((\<forall>k \<in> set (secret_keys settings). jwt_decode L tok k = RaisesJWTError) \<longrightarrow>
          get_current_principal L request access_token has_single_user_api_key
              settings authenticators =
            (request, Inl (HTTPException 401 ''Could not validate credentials''
                             (Some [(''WWW-Authenticate'', ''Bearer'')]))))
       \<and> HTTPException 401 ''Access token has expired. Refresh token.'' None \<noteq>
           HTTPException 401 ''Could not validate credentials''
             (Some [(''WWW-Authenticate'', ''Bearer'')])"
proof (intro conjI impI)
  assume "\<exists>pre k rest. secret_keys settings = pre @ k # rest
              \<and> (\<forall>k' \<in> set pre. jwt_decode L tok k' = RaisesJWTError)
              \<and> jwt_decode L tok k = RaisesExpiredSignatureError"
  then obtain pre k rest where keys: "secret_keys settings = pre @ k # rest"
    and pre: "\<forall>k' \<in> set pre. jwt_decode L tok k' = RaisesJWTError"
    and k: "jwt_decode L tok k = RaisesExpiredSignatureError"
    by blast
  have "decode_token L tok (secret_keys settings) = Inl ExpiredSignatureError"
    using k by (simp add: keys decode_token_skips_failing_keys [OF pre])
  with not_admin presented
  show "get_current_principal L request access_token has_single_user_api_key
            settings authenticators =
          (request, Inl (HTTPException 401 ''Access token has expired. Refresh token.'' None))"
    by (simp add: get_current_principal_def access_token_expired_def)
next
  assume "\<forall>k \<in> set (secret_keys settings). jwt_decode L tok k = RaisesJWTError"
  then have "decode_token L tok (secret_keys settings) = Inl credentials_exception"
    by (simp add: decode_token_invalid_iff)
  with not_admin presented
  show "get_current_principal L request access_token has_single_user_api_key
            settings authenticators =
          (request, Inl (HTTPException 401 ''Could not validate credentials''
                           (Some [(''WWW-Authenticate'', ''Bearer'')])))"
    by (simp add: get_current_principal_def credentials_exception_def)
next
  show "HTTPException 401 ''Access token has expired. Refresh token.'' None \<noteq>
          HTTPException 401 ''Could not validate credentials''
            (Some [(''WWW-Authenticate'', ''Bearer'')])"
    by simp
qed

text \<open>
  With an authenticator configured and the keys \<open>K1, K2\<close>: the expired token signed
  under \<open>K2\<close> gives the first error, a token signed under the unknown \<open>K3\<close> the second.
\<close>

theorem expired_access_token_is_distinct_witness:
  "get_current_principal (example_libs True) example_request (Some ''K2.token'') False
       example_settings [''orcid''] =
     (example_request,
      Inl (HTTPException 401 ''Access token has expired. Refresh token.'' None)) \<and>
   get_current_principal (example_libs True) example_request (Some ''K3.token'') False
       example_settings [''orcid''] =
     (example_request,
      Inl (HTTPException 401 ''Could not validate credentials''
             (Some [(''WWW-Authenticate'', ''Bearer'')])))"
proof -
  have not_admin: "\<not> ([''orcid''] = [] \<and> False)"
    by simp
  have presented: "(case map_of (cookies example_request) ACCESS_TOKEN_COOKIE_NAME of
                      Some c \<Rightarrow> Some c
                    | None \<Rightarrow> Some tok) = Some tok" for tok
    by (simp add: example_request_def)
  have expired: "\<exists>pre k rest. secret_keys example_settings = pre @ k # rest
      \<and> (\<forall>k' \<in> set pre. jwt_decode (example_libs True) ''K2.token'' k' = RaisesJWTError)
      \<and> jwt_decode (example_libs True) ''K2.token'' k = RaisesExpiredSignatureError"
    by (rule exI [of _ "[''K1'']"], rule exI [of _ "''K2''"], rule exI [of _ "[]"])
       (simp add: example_settings_def example_libs_def)
  have forged: "\<forall>k \<in> set (secret_keys example_settings).
      jwt_decode (example_libs True) ''K3.token'' k = RaisesJWTError"
    by (simp add: example_settings_def example_libs_def)
  show ?thesis
    using expired_access_token_is_distinct [OF not_admin presented [of "''K2.token''"],
            where L = "example_libs True" and settings = example_settings] expired
          expired_access_token_is_distinct [OF not_admin presented [of "''K3.token''"],
            where L = "example_libs True" and settings = example_settings] forged
    by blast
qed

section \<open>Queries and generated keys\<close>

lemma first_index_None_iff: "first_index P xs = None \<longleftrightarrow> find P xs = None"
  by (induction xs) auto

lemma first_index_Some:
  "first_index P xs = Some i \<Longrightarrow> i < length xs \<and> find P xs = Some (xs ! i)"
  by (induction xs arbitrary: i) (auto split: if_splits)


lemma find_append_None: "find P xs = None \<Longrightarrow> find P (xs @ ys) = find P ys"
  by (induction xs) (auto split: if_splits)

lemma fold_max_ge: "a \<le> fold max xs (a::nat)"
  by (induction xs arbitrary: a) (auto intro: order_trans [OF max.cobounded2])

lemma fold_max_upper: "x \<in> set xs \<Longrightarrow> x \<le> fold max xs (a::nat)"
proof (induction xs arbitrary: a)
  case Nil
  then show ?case by simp
next
  case (Cons y ys)
  show ?case
  proof (cases "x = y")
    case True
    have "y \<le> max y a" by simp
    also have "\<dots> \<le> fold max ys (max y a)" by (rule fold_max_ge)
    finally show ?thesis using True by simp
  next
    case False
    with Cons show ?thesis by simp
  qed
qed

lemma next_id_fresh: "x \<in> set ids \<Longrightarrow> x < next_id ids"
  by (simp add: next_id_def fold_max_upper less_Suc_eq_le)

lemma principal_with_next_id:
  "principal_with_id st (next_id (map p_id (principals st))) = None"
proof -
  have "\<not> (\<exists>p \<in> set (principals st). p_id p = next_id (map p_id (principals st)))"
    using next_id_fresh [of _ "map p_id (principals st)"] by fastforce
  then show ?thesis
    by (simp add: principal_with_id_def find_None_iff)
qed

section \<open>Creating sessions\<close>

text \<open>The handle after \<^verbatim>\<open>create_session\<close> for a pair that has no Identity yet.\<close>

lemma create_session_new_pair:
  assumes "find (\<lambda>i. i_id i = ident \<and> i_provider i = provider) (identities (rows d)) = None"
  shows "fst (create_session L now utcnow pu su d settings provider ident) =
    (let p = \<lparr>p_id = next_id (map p_id (principals (rows d))), p_uuid = pu, p_type = user\<rparr>;
         i = \<lparr>i_id = ident, i_provider = provider, i_principal_id = p_id p\<rparr>;
         s = \<lparr>s_id = next_id (map s_id (sessions (rows d))), s_uuid = su,
              s_principal_id = p_id p, s_expiration_time = now + session_max_age settings,
              s_revoked = False, s_refresh_count = 0, s_time_last_refreshed = None\<rparr>;
         st1 = (rows d)\<lparr>principals := principals (rows d) @ [p]\<rparr>;
         st2 = st1\<lparr>identities := identities (rows d) @ [i]\<rparr>;
         st3 = st2\<lparr>sessions := sessions (rows d) @ [s]\<rparr>
     in \<lparr>rows = st3, committed = committed d @ [st1, st2, st3]\<rparr>)"
  using assms by (simp add: create_session_def commit_def Let_def)

text \<open>The handle after \<^verbatim>\<open>create_session\<close> for a pair whose Identity and Principal exist.\<close>

lemma create_session_known_pair:
  assumes "find (\<lambda>i. i_id i = ident \<and> i_provider i = provider) (identities (rows d)) = Some i"
    and "principal_with_id (rows d) (i_principal_id i) = Some p"
  shows "fst (create_session L now utcnow pu su d settings provider ident) =
    (let s = \<lparr>s_id = next_id (map s_id (sessions (rows d))), s_uuid = su,
              s_principal_id = p_id p, s_expiration_time = now + session_max_age settings,
              s_revoked = False, s_refresh_count = 0, s_time_last_refreshed = None\<rparr>;
         st = (rows d)\<lparr>sessions := sessions (rows d) @ [s]\<rparr>
     in \<lparr>rows = st, committed = committed d @ [st]\<rparr>)"
  using assms by (simp add: create_session_def commit_def Let_def)

text \<open>
  The store keeps its referential integrity through \<^verbatim>\<open>create_session\<close>, and under it
  the Principal of a stored Identity is always found.
\<close>

lemma find_append_Some: "find P xs = Some x \<Longrightarrow> find P (xs @ ys) = Some x"
  by (induction xs) (auto split: if_splits)

lemma principal_with_id_append:
  "principal_with_id st k \<noteq> None \<Longrightarrow>
   principal_with_id (st\<lparr>principals := principals st @ ps\<rparr>) k \<noteq> None"
  by (auto simp: principal_with_id_def find_append_Some)

lemma create_session_referential_integrity:
  assumes "referential_integrity (rows d)"
  shows "referential_integrity
           (rows (fst (create_session L now utcnow pu su d settings provider ident)))"
proof (cases "find (\<lambda>i. i_id i = ident \<and> i_provider i = provider) (identities (rows d))")
  case None
  let ?p = "\<lparr>p_id = next_id (map p_id (principals (rows d))), p_uuid = pu, p_type = user\<rparr>"
  have "principal_with_id ((rows d)\<lparr>principals := principals (rows d) @ [?p]\<rparr>) (p_id ?p)
          = Some ?p"
    using principal_with_next_id [of "rows d"]
    by (simp add: principal_with_id_def find_append_None)
  with assms principal_with_id_append [of "rows d" _ "[?p]"] show ?thesis
    by (auto simp: create_session_new_pair [OF None] Let_def referential_integrity_def
          list_all_iff principal_with_id_def)
next
  case (Some i)
  show ?thesis
  proof (cases "principal_with_id (rows d) (i_principal_id i)")
    case None
    with Some assms show ?thesis
      by (simp add: create_session_def)
  next
    case (Some p)
    with \<open>find _ _ = Some i\<close> assms show ?thesis
      by (simp add: create_session_known_pair [OF _ Some] Let_def referential_integrity_def
            principal_with_id_def)
  qed
qed

lemma referential_integrity_linked:
  assumes "referential_integrity (rows d)"
  shows "\<forall>i. find P (identities (rows d)) = Some i
           \<longrightarrow> principal_with_id (rows d) (i_principal_id i) \<noteq> None"
  using assms by (auto simp: referential_integrity_def list_all_iff find_Some_iff)

lemma referential_integrity_next_id:
  assumes "referential_integrity st" and "j \<in> set (identities st)"
  shows "i_principal_id j \<noteq> next_id (map p_id (principals st))"
proof -
  from assms have "principal_with_id st (i_principal_id j) \<noteq> None"
    by (simp add: referential_integrity_def list_all_iff)
  then obtain p where "p \<in> set (principals st)" and "p_id p = i_principal_id j"
    by (auto simp: principal_with_id_def find_None_iff)
  then have "i_principal_id j \<in> set (map p_id (principals st))"
    by force
  from next_id_fresh [OF this] show ?thesis
    by simp
qed

text \<open>
  Claim C4, as the code has it. For a pair with no Identity in a store with
  referential integrity, \<^verbatim>\<open>create_session\<close> commits three times, and the states it
  makes durable are, in order: \<open>st1\<close>, the store with the new Principal \<open>p\<close> (type
  \<open>user\<close>), in which \<open>p\<close> has no Identity; \<open>st2\<close>, with the Identity \<open>i\<close> linking \<open>p\<close>
  added, in which \<open>i\<close> is the one Identity of \<open>p\<close>; and \<open>st3\<close>, with the new Session
  added. A call that passes the second commit has stored both rows; one that stops
  between the first and the second leaves the Principal without its Identity.
\<close>

theorem create_session_commit_sequence:
  assumes new: "find (\<lambda>i. i_id i = ident \<and> i_provider i = provider) (identities (rows d)) = None"
    and intact: "referential_integrity (rows d)"
  shows "\<exists>p i s st1 st2 st3.
      committed (fst (create_session L now utcnow pu su d settings provider ident)) =
        committed d @ [st1, st2, st3]
    \<and> p = \<lparr>p_id = next_id (map p_id (principals (rows d))), p_uuid = pu, p_type = user\<rparr>
    \<and> i = \<lparr>i_id = ident, i_provider = provider, i_principal_id = p_id p\<rparr>
    \<and> s = \<lparr>s_id = next_id (map s_id (sessions (rows d))), s_uuid = su,
           s_principal_id = p_id p, s_expiration_time = now + session_max_age settings,
           s_revoked = False, s_refresh_count = 0, s_time_last_refreshed = None\<rparr>
    \<and> st1 = (rows d)\<lparr>principals := principals (rows d) @ [p]\<rparr>
    \<and> identities_of st1 p = []
    \<and> st2 = st1\<lparr>identities := identities (rows d) @ [i]\<rparr>
    \<and> identities_of st2 p = [i]
    \<and> st3 = st2\<lparr>sessions := sessions (rows d) @ [s]\<rparr>"
proof -
  let ?p = "\<lparr>p_id = next_id (map p_id (principals (rows d))), p_uuid = pu, p_type = user\<rparr>"
  have "filter (\<lambda>j. i_principal_id j = p_id ?p) (identities (rows d)) = []"
    using referential_integrity_next_id [OF intact] by (simp add: filter_empty_conv)
  then show ?thesis
    by (simp add: create_session_new_pair [OF new] Let_def identities_of_def)
qed

text \<open>The first login of \<open>alice\<close> on the empty store, and the three states it commits.\<close>

theorem create_session_commit_sequence_witness:
  "committed (fst (create_session (example_libs False) 10 10 (UUID 8) (UUID 7) empty_db
                     example_settings ''orcid'' ''alice'')) =
     [\<lparr>principals = [\<lparr>p_id = 1, p_uuid = UUID 8, p_type = user\<rparr>],
       identities = [], sessions = []\<rparr>,
      \<lparr>principals = [\<lparr>p_id = 1, p_uuid = UUID 8, p_type = user\<rparr>],
       identities = [\<lparr>i_id = ''alice'', i_provider = ''orcid'', i_principal_id = 1\<rparr>],
       sessions = []\<rparr>,
      \<lparr>principals = [\<lparr>p_id = 1, p_uuid = UUID 8, p_type = user\<rparr>],
       identities = [\<lparr>i_id = ''alice'', i_provider = ''orcid'', i_principal_id = 1\<rparr>],
       sessions = [\<lparr>s_id = 1, s_uuid = UUID 7, s_principal_id = 1,
                   s_expiration_time = 9000000010, s_revoked = False,
                   s_refresh_count = 0, s_time_last_refreshed = None\<rparr>]\<rparr>]"
proof -
  have new: "find (\<lambda>i. i_id i = ''alice'' \<and> i_provider i = ''orcid'')
               (identities (rows empty_db)) = None"
    by (simp add: empty_db_def)
  have intact: "referential_integrity (rows empty_db)"
    by (simp add: empty_db_def referential_integrity_def)
  from create_session_commit_sequence [OF new intact, of "example_libs False" 10 10 "UUID 8"
         "UUID 7" example_settings]
  show ?thesis
    by (auto simp: empty_db_def example_settings_def next_id_def)
qed

text \<open>
  Against claim C4 as stated: on the empty store, the first state that
  \<^verbatim>\<open>create_session\<close> makes durable holds the new Principal and no Identity.
\<close>

theorem create_session_principal_committed_alone:
  "hd (committed (fst (create_session (example_libs False) 10 10 (UUID 8) (UUID 7) empty_db
                         example_settings ''orcid'' ''alice''))) =
     \<lparr>principals = [\<lparr>p_id = 1, p_uuid = UUID 8, p_type = user\<rparr>],
      identities = [], sessions = []\<rparr>"
  by (simp add: create_session_def commit_def empty_db_def next_id_def Let_def)



section \<open>Refreshing and revoking sessions\<close>

text \<open>
  Claim C1. For a refresh token that decodes, whose claims carry a session id that
  parses to the uuid \<open>u\<close>: if no Session has this uuid, or the Session found is
  revoked, or its \<open>expiration_time\<close> is before \<open>now\<close>, then \<^verbatim>\<open>slide_session\<close> raises
  the same 401 "Session has expired. Please re-authenticate." in each of the three
  cases, and leaves the handle as it was.
\<close>

theorem slide_session_uniform_error:
  assumes decoded: "decode_token L refresh_token (secret_keys settings) = Inr payload"
    and sid: "map_of payload ''sid'' = Some sid"
    and uuid: "UUID_of_hex L sid = Inr u"
    and dead: "find (\<lambda>s. s_uuid s = u) (sessions (rows d)) = None
               \<or> (\<exists>s. find (\<lambda>s. s_uuid s = u) (sessions (rows d)) = Some s \<and> s_revoked s)
               \<or> (\<exists>s. find (\<lambda>s. s_uuid s = u) (sessions (rows d)) = Some s
                       \<and> s_expiration_time s < now)"
  shows "slide_session L now utcnow refresh_token settings d =
           (d, Inl (HTTPException 401 ''Session has expired. Please re-authenticate.'' None))"
proof (cases "first_index (\<lambda>s. s_uuid s = u) (sessions (rows d))")
  case None
  with decoded sid uuid show ?thesis
    by (simp add: slide_session_def session_expired_def)
next
  case (Some i)
  from first_index_Some [OF Some] dead
  have "s_revoked (sessions (rows d) ! i) \<or> s_expiration_time (sessions (rows d) ! i) < now"
    by auto
  with decoded sid uuid Some show ?thesis
    by (auto simp: slide_session_def session_expired_def Let_def)
qed

text \<open>
  The same token against a store without the Session, with the Session revoked, and
  with the Session expired at 40 when the clock reads 50.
\<close>

theorem slide_session_uniform_error_witness:
  "slide_session (example_libs False) 50 50 ''K1.token'' example_settings empty_db =
     (empty_db, Inl (HTTPException 401 ''Session has expired. Please re-authenticate.'' None)) \<and>
   slide_session (example_libs False) 50 50 ''K1.token'' example_settings (example_db True 90) =
     (example_db True 90,
      Inl (HTTPException 401 ''Session has expired. Please re-authenticate.'' None)) \<and>
   slide_session (example_libs False) 50 50 ''K1.token'' example_settings (example_db False 40) =
     (example_db False 40,
      Inl (HTTPException 401 ''Session has expired. Please re-authenticate.'' None))"
proof -
  let ?payload = "[(''type'', JStr ''refresh''), (''sid'', JStr ''07''), (''exp'', JInt 100)]"
  have decoded: "decode_token (example_libs False) ''K1.token'' (secret_keys example_settings)
                   = Inr ?payload"
    by (simp add: example_libs_def example_settings_def)
  have sid: "map_of ?payload ''sid'' = Some (JStr ''07'')"
    by simp
  have uuid: "UUID_of_hex (example_libs False) (JStr ''07'') = Inr (UUID 7)"
    by (simp add: example_libs_def)
  show ?thesis
    using slide_session_uniform_error [OF decoded sid uuid, of empty_db 50 50]
          slide_session_uniform_error [OF decoded sid uuid, of "example_db True 90" 50 50]
          slide_session_uniform_error [OF decoded sid uuid, of "example_db False 40" 50 50]
    by (simp add: empty_db_def example_db_def)
qed

text \<open>
  The \<^verbatim>\<open>UPDATE\<close> of \<^verbatim>\<open>slide_session\<close> on any store: the row at \<open>i\<close> gets the time and
  one more than the count stored in it, and nothing else changes. So \<open>n\<close> such updates
  reaching the same store add \<open>n\<close> to the count.
\<close>

lemma update_session_slide:
  "update_session i [Set_time_last_refreshed now, Add_to_refresh_count 1] st =
     st\<lparr>sessions := (sessions st)
           [i := (sessions st ! i)
                   \<lparr>s_time_last_refreshed := Some now,
                    s_refresh_count := s_refresh_count (sessions st ! i) + 1\<rparr>]\<rparr>"
  by (cases "i < length (sessions st)")
     (simp_all add: update_session_def not_less list_update_beyond)

lemma update_session_repeated:
  assumes "i < length (sessions st)"
  shows "s_refresh_count
           (sessions
              (((update_session i [Set_time_last_refreshed now, Add_to_refresh_count 1]) ^^ n) st)
            ! i) =
         s_refresh_count (sessions st ! i) + int n
       \<and> length
           (sessions
              (((update_session i [Set_time_last_refreshed now, Add_to_refresh_count 1]) ^^ n) st))
         = length (sessions st)"
  using assms by (induction n) (simp_all add: update_session_slide)



text \<open>Revoking a Session that the store has: the flag is set, committed, and 204 returned.\<close>

lemma revoke_session_found:
  assumes "uuid_from_hex L session_id = Some u"
    and "first_index (\<lambda>s. s_uuid s = u) (sessions (rows d)) = Some i"
  shows "revoke_session L session_id request d =
           (request\<lparr>endpoint := Some ''auth''\<rparr>,
            commit (d\<lparr>rows := (rows d)\<lparr>sessions :=
               (sessions (rows d))[i := (sessions (rows d) ! i)\<lparr>s_revoked := True\<rparr>]\<rparr>\<rparr>),
            Inr (Response 204))"
  using assms by (simp add: revoke_session_def Let_def)

text \<open>Revoking a Session that the store does not have raises, and changes nothing.\<close>

lemma revoke_session_missing:
  assumes "uuid_from_hex L session_id = Some u"
    and "find (\<lambda>s. s_uuid s = u) (sessions (rows d)) = None"
  shows "revoke_session L session_id request d =
           (request\<lparr>endpoint := Some ''auth''\<rparr>, d, Inl AttributeError)"
proof -
  have "first_index (\<lambda>s. s_uuid s = u) (sessions (rows d)) = None"
    using assms(2) by (simp add: first_index_None_iff)
  with assms(1) show ?thesis
    by (simp add: revoke_session_def)
qed

text \<open>
  Claim C3 fails on the code for a session id that matches no Session: on the empty
  store, \<^verbatim>\<open>revoke_session\<close> with the well-formed id \<open>07\<close> raises \<^verbatim>\<open>AttributeError\<close>
  where the claim has it return 204.
\<close>

theorem revoke_session_unknown_session_raises:
  "revoke_session (example_libs False) ''07'' example_request empty_db =
     (example_request\<lparr>endpoint := Some ''auth''\<rparr>, empty_db, Inl AttributeError)"
  by (simp add: revoke_session_def example_libs_def empty_db_def)

section \<open>whoami\<close>

lemma whoami_authenticated:
  assumes "find (\<lambda>r. p_uuid r = m_uuid p) (principals (rows d)) = Some principal_orm"
  shows "whoami request (Some (Authenticated p)) d =
           (request\<lparr>endpoint := Some ''auth''\<rparr>,
            Inr (Some (Principal_from_orm (rows d) principal_orm)))"
  using assms by (simp add: whoami_def)

lemma whoami_sentinel:
  "whoami request (Some (Special sentinel)) d =
     (request\<lparr>endpoint := Some ''auth''\<rparr>, Inl AttributeError)"
  by (simp add: whoami_def)

text \<open>
  Claim C9 fails on the code for the Public principal: a request without credentials,
  anonymous access being enabled, resolves to the Public sentinel, which is not
  \<^verbatim>\<open>None\<close>; \<^verbatim>\<open>whoami\<close> then reads its \<^verbatim>\<open>uuid\<close> and raises \<^verbatim>\<open>AttributeError\<close> where the
  claim has it return an empty result.
\<close>

theorem whoami_public_raises:
  "snd (depends_get_current_principal (example_libs False) example_request None
          None None None example_settings [''orcid'']) = Inr (Special public) \<and>
   whoami example_request (Some (Special public)) empty_db =
     (example_request\<lparr>endpoint := Some ''auth''\<rparr>, Inl AttributeError)"
  by (simp add: depends_get_current_principal_def check_single_user_api_key_def
        get_current_principal_def example_request_def example_settings_def whoami_def
        ACCESS_TOKEN_COOKIE_NAME_def)

end
